theory Spec2Isabelle
  imports Main "HOL-Library.Char_ord" "HOL-Library.List_Lexorder" "HOL-Library.AList"
begin

section \<open>Python strings\<close>

text \<open>
  A Python string is a sequence of code points. The model has the strings over the code
  points below 256 (\<open>char list\<close>, a \<open>char\<close> being its code point), with Python's
  behaviour on them: \<open>str.split()\<close> cuts at the characters 9..13, 28..32, 0x85 and
  0xA0; \<open>str.lower\<close> adds 32 to \<open>A..Z\<close> and to the capital letters 0xC0..0xDE (0xD7,
  the multiplication sign, is not one); \<open>str.isnumeric\<close> holds of the non-empty strings
  made of the digits \<open>0..9\<close>, the superscripts 0xB2, 0xB3, 0xB9 and the fractions 0xBC,
  0xBD, 0xBE; \<open>int\<close> reads the digits \<open>0..9\<close> only. Strings compare lexicographically
  by code point.
\<close>

datatype exn = VideoLibraryError | VideoPlaybackError | EOFError | ValueError

definition isspace :: "char \<Rightarrow> bool" where
  "isspace c =
     (of_char c \<in> {9, 10, 11, 12, 13, 28, 29, 30, 31, 32, 0x85, 0xA0 :: nat})"

text \<open>\<^verbatim>\<open>''.join(s.split())\<close>: the string without its whitespace.\<close>

definition join_split :: "string \<Rightarrow> string" where
  "join_split s = filter (\<lambda>c. \<not> isspace c) s"

definition lower_char :: "char \<Rightarrow> char" where
  "lower_char c =
     (let n = (of_char c :: nat)
      in if (0x41 \<le> n \<and> n \<le> 0x5A) \<or> (0xC0 \<le> n \<and> n \<le> 0xDE \<and> n \<noteq> 0xD7)
         then char_of (n + 32) else c)"

definition lower :: "string \<Rightarrow> string" where
  "lower s = map lower_char s"

definition isdecimal_char :: "char \<Rightarrow> bool" where
  "isdecimal_char c = (0x30 \<le> (of_char c :: nat) \<and> (of_char c :: nat) \<le> 0x39)"

definition isnumeric_char :: "char \<Rightarrow> bool" where
  "isnumeric_char c =
     (isdecimal_char c \<or> of_char c \<in> {0xB2, 0xB3, 0xB9, 0xBC, 0xBD, 0xBE :: nat})"

definition isnumeric :: "string \<Rightarrow> bool" where
  "isnumeric s = (s \<noteq> [] \<and> list_all isnumeric_char s)"

text \<open>
  \<^verbatim>\<open>int(s)\<close> on a string without whitespace, sign or underscore (a string that passes
  \<open>isnumeric\<close> has none): the decimal value of a non-empty string of digits, and
  \<open>ValueError\<close> for any other string. The bound that recent Python versions put on the
  number of digits is not modelled.
\<close>

definition int_of_str :: "string \<Rightarrow> exn + int" where
  "int_of_str s =
     (if s \<noteq> [] \<and> list_all isdecimal_char s
      then Inr (foldl (\<lambda>n c. 10 * n + (int (of_char c) - 0x30)) 0 s)
      else Inl ValueError)"

text \<open>\<^verbatim>\<open>a in b\<close> on strings: \<open>a\<close> occurs in \<open>b\<close> as a contiguous piece.\<close>

fun startswith :: "string \<Rightarrow> string \<Rightarrow> bool" where
  "startswith ys [] = True"
| "startswith [] (x # xs) = False"
| "startswith (y # ys) (x # xs) = (x = y \<and> startswith ys xs)"

fun str_in :: "string \<Rightarrow> string \<Rightarrow> bool" where
  "str_in a [] = (a = [])"
| "str_in a (y # ys) = (startswith (y # ys) a \<or> str_in a ys)"

section \<open>Videos and the library\<close>

text \<open>
  A \<open>Video\<close> object has an identifier, a title, tags and a flag. The first three never
  change; the flag is the one mutable field. Video objects are shared by reference
  between the library, the playback and the playlists, so a flag set through the library
  is seen through every other reference. The model keeps that aliasing with a store: the
  immutable fields travel with the reference (the record \<open>video\<close>), and the flag field of
  every Video object lives in the player's \<open>flags\<close> store, addressed by the video's
  identifier, which the library keeps unique.
\<close>

record video =
  video_id :: string
  title :: string
  tags :: "string list"

text \<open>
  Modelled from the spec: the class \<open>VideoLibrary\<close> (module \<open>video_library\<close>, not among
  the sources). "Library: \<open>get(id) -> Video | NotFound\<close>, \<open>all() -> sequence<Video>\<close>
  (fixed order), \<open>unflagged() -> sequence<Video>\<close>, \<open>random_unflagged_id() -> id | None\<close>".
  The library is the list of its videos in that fixed order. \<open>getitem\<close> is
  \<^verbatim>\<open>self._video_library[video_id]\<close>, which raises \<open>VideoLibraryError\<close> for an unknown
  identifier; \<open>get_video_lib\<close> is \<^verbatim>\<open>self._video_library.get_video(video_id)\<close>, which
  returns \<open>None\<close> there.
\<close>

definition get_video_lib :: "video list \<Rightarrow> string \<Rightarrow> video option" where
  "get_video_lib lib vid = find (\<lambda>v. video_id v = vid) lib"

definition getitem :: "video list \<Rightarrow> string \<Rightarrow> exn + video" where
  "getitem lib vid =
     (case get_video_lib lib vid of None \<Rightarrow> Inl VideoLibraryError | Some v \<Rightarrow> Inr v)"

text \<open>Python's truth value of the flag field: \<open>None\<close> and the empty string are false.\<close>

definition truthy :: "string option \<Rightarrow> bool" where
  "truthy f = (case f of None \<Rightarrow> False | Some r \<Rightarrow> r \<noteq> [])"

section \<open>Playback\<close>

datatype PlaybackState = STOPPED | PLAYING | PAUSED

text \<open>
  Modelled from the spec: the class \<open>VideoPlayback\<close> (module \<open>video_playback\<close>, not among
  the sources). "Playback State: an enumeration {STOPPED, PLAYING, PAUSED} plus an
  optional reference to the currently associated Video. Invariant: reference is present
  iff state \<noteq> STOPPED." The datatype has exactly the values that satisfy the invariant;
  \<open>state\<close> and \<open>current\<close> read the two components.
\<close>

datatype VideoPlayback = Stopped | Playing video | Paused video

fun state :: "VideoPlayback \<Rightarrow> PlaybackState" where
  "state Stopped = STOPPED"
| "state (Playing v) = PLAYING"
| "state (Paused v) = PAUSED"

fun current :: "VideoPlayback \<Rightarrow> video option" where
  "current Stopped = None"
| "current (Playing v) = Some v"
| "current (Paused v) = Some v"

text \<open>
  Modelled from the spec: "\<open>get_current()\<close>: returns current video reference and state;
  fails with "no current video" when state is STOPPED."
\<close>

fun get_video :: "VideoPlayback \<Rightarrow> exn + video" where
  "get_video Stopped = Inl VideoPlaybackError"
| "get_video (Playing v) = Inr v"
| "get_video (Paused v) = Inr v"

text \<open>
  Modelled from the spec: "\<open>stop()\<close>: legal only from PLAYING or PAUSED; transitions to
  STOPPED, clears current video reference. Calling from STOPPED fails with "no current
  video"."
\<close>

fun stop :: "VideoPlayback \<Rightarrow> exn + VideoPlayback" where
  "stop Stopped = Inl VideoPlaybackError"
| "stop (Playing v) = Inr Stopped"
| "stop (Paused v) = Inr Stopped"

text \<open>
  Modelled from the spec: "\<open>pause()\<close>: legal only from PLAYING; transitions to PAUSED.
  Calling when no video is current fails with "no current video". Calling when already
  PAUSED is not an error at this layer".
\<close>

fun pause :: "VideoPlayback \<Rightarrow> exn + VideoPlayback" where
  "pause Stopped = Inl VideoPlaybackError"
| "pause (Playing v) = Inr (Paused v)"
| "pause (Paused v) = Inr (Paused v)"

text \<open>
  Modelled from the spec: "\<open>play(video)\<close>: if state \<noteq> STOPPED, first performs an implicit
  stop of the currently playing video [...]. Transitions to PLAYING with the given video
  as current"; "Side effects: none beyond internal state". The component does not look
  at the flag ("component itself does not re-check"). The player also resumes with it
  ("\<open>resume()\<close>: legal only from PAUSED; transitions to PLAYING, current video
  unchanged").
\<close>

fun play :: "video \<Rightarrow> VideoPlayback \<Rightarrow> VideoPlayback" where
  "play v Stopped = Playing v"
| "play v (Playing u) = Playing v"
| "play v (Paused u) = Playing v"

section \<open>Playlists\<close>

record Playlist =
  name :: string
  videos :: "video list"

text \<open>\<^verbatim>\<open>Playlist(name)\<close>\<close>

definition new_Playlist :: "string \<Rightarrow> Playlist" where
  "new_Playlist n = \<lparr>name = n, videos = []\<rparr>"

section \<open>The console\<close>

text \<open>
  Every \<open>print\<close> of the player is one line of the console. A line keeps the values the
  source formats into it; \<open>Cannot a r\<close> is a line \<^verbatim>\<open>Cannot <a>: <r>\<close>. \<open>Exn e\<close> is the
  text of a caught exception (\<^verbatim>\<open>{e}\<close>): that of \<open>VideoLibraryError\<close> is the outcome
  NotFound of an unknown video, that of \<open>VideoPlaybackError\<close> the outcome
  NoVideoPlaying. A video is printed with the flag it has at that time.
\<close>

datatype action =
    PlayVideo                     \<comment> \<open>\<^verbatim>\<open>play video\<close>\<close>
  | StopVideo                     \<comment> \<open>\<^verbatim>\<open>stop video\<close>\<close>
  | PauseVideo                    \<comment> \<open>\<^verbatim>\<open>pause video\<close>\<close>
  | ContinueVideo                 \<comment> \<open>\<^verbatim>\<open>continue video\<close>\<close>
  | GetPlaying                    \<comment> \<open>\<^verbatim>\<open>get information on currently playing video\<close>\<close>
  | CreatePlaylist                \<comment> \<open>\<^verbatim>\<open>create playlist\<close>\<close>
  | AddVideoTo string             \<comment> \<open>\<^verbatim>\<open>add video to {playlist_name}\<close>\<close>
  | ShowPlaylist string           \<comment> \<open>\<^verbatim>\<open>show playlist {playlist_name}\<close>\<close>
  | RemoveVideoFrom string        \<comment> \<open>\<^verbatim>\<open>remove video from {playlist_name}\<close>\<close>
  | ClearPlaylist string          \<comment> \<open>\<^verbatim>\<open>clear playlist {playlist_name}\<close>\<close>
  | DeletePlaylist string         \<comment> \<open>\<^verbatim>\<open>delete playlist {playlist_name}\<close>\<close>
  | FlagVideo                     \<comment> \<open>\<^verbatim>\<open>flag video\<close>\<close>
  | RemoveFlag                    \<comment> \<open>\<^verbatim>\<open>remove flag from video\<close>\<close>

datatype reason =
    Exn exn                       \<comment> \<open>\<^verbatim>\<open>{e}\<close>\<close>
  | VideoFlagged "string option"  \<comment> \<open>\<^verbatim>\<open>Video is currently flagged (reason: {video.flag})\<close>\<close>
  | VideoNotPaused                \<comment> \<open>\<^verbatim>\<open>Video is not paused\<close>\<close>
  | PlaylistExists                \<comment> \<open>\<^verbatim>\<open>A playlist with the same name already exists\<close>\<close>
  | PlaylistDoesNotExist          \<comment> \<open>\<^verbatim>\<open>Playlist does not exist\<close>\<close>
  | VideoDoesNotExist             \<comment> \<open>\<^verbatim>\<open>Video does not exist\<close>\<close>
  | VideoAlreadyAdded             \<comment> \<open>\<^verbatim>\<open>Video already added\<close>\<close>
  | VideoNotInPlaylist            \<comment> \<open>\<^verbatim>\<open>Video is not in playlist\<close>\<close>
  | VideoAlreadyFlagged           \<comment> \<open>\<^verbatim>\<open>Video is already flagged\<close>\<close>
  | VideoNotFlagged               \<comment> \<open>\<^verbatim>\<open>Video is not flagged\<close>\<close>

datatype line =
    Cannot action reason
  | NumVideos nat                         \<comment> \<open>\<^verbatim>\<open>{num_videos} videos in the library\<close>\<close>
  | AllVideosHeader                       \<comment> \<open>\<^verbatim>\<open>Here's a list of all available videos:\<close>\<close>
  | VideoLine video "string option"       \<comment> \<open>\<^verbatim>\<open>{v}\<close>\<close>
  | PlayingVideo string                   \<comment> \<open>\<^verbatim>\<open>Playing video: {video.title}\<close>\<close>
  | StoppingVideo string                  \<comment> \<open>\<^verbatim>\<open>Stopping video: {video.title}\<close>\<close>
  | NoVideosAvailable                     \<comment> \<open>\<^verbatim>\<open>No videos available\<close>\<close>
  | AlreadyPaused string                  \<comment> \<open>\<^verbatim>\<open>Video already paused: {video.title}\<close>\<close>
  | PausingVideo string                   \<comment> \<open>\<^verbatim>\<open>Pausing video: {video.title}\<close>\<close>
  | ContinuingVideo string                \<comment> \<open>\<^verbatim>\<open>Continuing video: {video.title}\<close>\<close>
  | NoVideoPlaying                        \<comment> \<open>\<^verbatim>\<open>No video is currently playing\<close>\<close>
  | CurrentlyPlaying video "string option" bool
      \<comment> \<open>\<^verbatim>\<open>Currently playing: {video}\<close>, with \<^verbatim>\<open> - PAUSED\<close> when the last field is true\<close>
  | CreatedPlaylist string                \<comment> \<open>\<^verbatim>\<open>Successfully created new playlist: {playlist_name}\<close>\<close>
  | AddedVideo string string              \<comment> \<open>\<^verbatim>\<open>Added video to {playlist_name}: {video.title}\<close>\<close>
  | NoPlaylists                           \<comment> \<open>\<^verbatim>\<open>No playlists exist yet\<close>\<close>
  | AllPlaylistsHeader                    \<comment> \<open>\<^verbatim>\<open>Showing all playlists:\<close>\<close>
  | PlaylistLine string                   \<comment> \<open>\<^verbatim>\<open>  {name}\<close>\<close>
  | ShowingPlaylist string                \<comment> \<open>\<^verbatim>\<open>Showing playlist: {playlist_name}\<close>\<close>
  | NoVideosHere                          \<comment> \<open>\<^verbatim>\<open>No videos here yet\<close>\<close>
  | RemovedVideo string string            \<comment> \<open>\<^verbatim>\<open>Removed video from {playlist_name}: {video.title}\<close>\<close>
  | ClearedPlaylist string                \<comment> \<open>\<^verbatim>\<open>Successfully removed all videos from {playlist_name}\<close>\<close>
  | DeletedPlaylist string                \<comment> \<open>\<^verbatim>\<open>Deleted playlist: {playlist_name}\<close>\<close>
  | NoSearchResults string                \<comment> \<open>\<^verbatim>\<open>No search results for {query}\<close>\<close>
  | ResultsHeader string                  \<comment> \<open>\<^verbatim>\<open>Here are the results for {query}:\<close>\<close>
  | NumberedVideo nat video "string option"  \<comment> \<open>\<^verbatim>\<open>{i + 1}) {ordered[i]}\<close>\<close>
  | PlayPrompt                            \<comment> \<open>\<^verbatim>\<open>Would you like to play any of the above? ...\<close>\<close>
  | FlaggedVideo string string
      \<comment> \<open>\<^verbatim>\<open>Successfully flagged video: {video.title} (reason: {flag_reason})\<close>\<close>
  | AllowedVideo string                   \<comment> \<open>\<^verbatim>\<open>Successfully removed flag from video: {video.title}\<close>\<close>

section \<open>The video player\<close>

text \<open>
  The state of a \<open>VideoPlayer\<close>: its library with the flag store of the library's Video
  objects, its playback, its dictionary of playlists (an association list in insertion
  order, keyed by the lower-cased name), the lines printed so far, and the lines that
  \<open>input()\<close> has still to read.
\<close>

record VideoPlayer =
  video_library :: "video list"
  flags :: "string \<rightharpoonup> string"
  playback :: VideoPlayback
  playlists :: "(string \<times> Playlist) list"
  console :: "line list"
  stdin :: "string list"

text \<open>\<^verbatim>\<open>VideoPlayer()\<close> on a library whose videos are loaded unflagged.\<close>

definition init :: "video list \<Rightarrow> string list \<Rightarrow> VideoPlayer" where
  "init lib inp =
     \<lparr>video_library = lib, flags = Map.empty, playback = Stopped, playlists = [],
      console = [], stdin = inp\<rparr>"

text \<open>\<^verbatim>\<open>video.flag\<close>\<close>

definition flag :: "VideoPlayer \<Rightarrow> video \<Rightarrow> string option" where
  "flag s v = flags s (video_id v)"

definition print :: "line \<Rightarrow> VideoPlayer \<Rightarrow> VideoPlayer" where
  "print l s = s\<lparr>console := console s @ [l]\<rparr>"

text \<open>\<^verbatim>\<open>input()\<close>: the next line of the input, \<open>EOFError\<close> when there is none.\<close>

definition input :: "VideoPlayer \<Rightarrow> exn + (string \<times> VideoPlayer)" where
  "input s = (case stdin s of [] \<Rightarrow> Inl EOFError | l # ls \<Rightarrow> Inr (l, s\<lparr>stdin := ls\<rparr>))"

text \<open>
  Modelled from the spec: \<open>get_unflagged_videos\<close> of the absent \<open>VideoLibrary\<close>
  ("\<open>unflagged() -> sequence<Video>\<close>"; "\<open>None\<close>/absent means unflagged").
\<close>

definition get_unflagged_videos :: "VideoPlayer \<Rightarrow> video list" where
  "get_unflagged_videos s = filter (\<lambda>v. flag s v = None) (video_library s)"

text \<open>
  Modelled from the spec: \<open>get_random_video_id\<close> of the absent \<open>VideoLibrary\<close>
  ("\<open>random_unflagged_id() -> id | None\<close> (uniform distribution over currently-unflagged
  videos; None if none exist)"). The random draw is the argument \<open>r\<close>.
\<close>

definition get_random_video_id :: "nat \<Rightarrow> VideoPlayer \<Rightarrow> string option" where
  "get_random_video_id r s =
     (let us = get_unflagged_videos s
      in if us = [] then None else Some (video_id (us ! (r mod length us))))"

definition number_of_videos :: "VideoPlayer \<Rightarrow> VideoPlayer" where
  "number_of_videos s = print (NumVideos (length (video_library s))) s"

definition show_all_videos :: "VideoPlayer \<Rightarrow> VideoPlayer" where
  "show_all_videos s =
     fold (\<lambda>v. print (VideoLine v (flag s v))) (video_library s) (print AllVideosHeader s)"

definition stop_video :: "VideoPlayer \<Rightarrow> VideoPlayer" where
  "stop_video s =
     (case get_video (playback s) of
        Inl e \<Rightarrow> print (Cannot StopVideo (Exn e)) s
      | Inr v \<Rightarrow>
          (let s1 = print (StoppingVideo (title v)) s
           in case stop (playback s1) of
                Inl e \<Rightarrow> print (Cannot StopVideo (Exn e)) s1
              | Inr pb \<Rightarrow> s1\<lparr>playback := pb\<rparr>))"

definition play_video :: "string \<Rightarrow> VideoPlayer \<Rightarrow> VideoPlayer" where
  "play_video vid s =
     (case getitem (video_library s) vid of
        Inl e \<Rightarrow> print (Cannot PlayVideo (Exn e)) s
      | Inr v \<Rightarrow>
          (let s1 = (if state (playback s) \<noteq> STOPPED then stop_video s else s)
           in if truthy (flag s1 v) then print (Cannot PlayVideo (VideoFlagged (flag s1 v))) s1
              else print (PlayingVideo (title v)) (s1\<lparr>playback := play v (playback s1)\<rparr>)))"

definition play_random_video :: "nat \<Rightarrow> VideoPlayer \<Rightarrow> VideoPlayer" where
  "play_random_video r s =
     (case get_random_video_id r s of
        None \<Rightarrow> print NoVideosAvailable s
      | Some vid \<Rightarrow> play_video vid s)"

text \<open>
  \<open>pause_video\<close> calls \<^verbatim>\<open>self._playback.pause()\<close> outside its \<open>try\<close>: an exception of
  that call would leave the method, which is the result \<open>Inl\<close>.
\<close>

definition pause_video :: "VideoPlayer \<Rightarrow> exn + VideoPlayer" where
  "pause_video s =
     (case get_video (playback s) of
        Inl e \<Rightarrow> Inr (print (Cannot PauseVideo (Exn e)) s)
      | Inr v \<Rightarrow>
          if state (playback s) = PAUSED then Inr (print (AlreadyPaused (title v)) s)
          else (let s1 = print (PausingVideo (title v)) s
                in case pause (playback s1) of
                     Inl e \<Rightarrow> Inl e
                   | Inr pb \<Rightarrow> Inr (s1\<lparr>playback := pb\<rparr>)))"

definition continue_video :: "VideoPlayer \<Rightarrow> VideoPlayer" where
  "continue_video s =
     (case get_video (playback s) of
        Inl e \<Rightarrow> print (Cannot ContinueVideo (Exn e)) s
      | Inr v \<Rightarrow>
          if state (playback s) \<noteq> PAUSED then print (Cannot ContinueVideo VideoNotPaused) s
          else (let s1 = print (ContinuingVideo (title v)) s
                in s1\<lparr>playback := play v (playback s1)\<rparr>))"

definition show_playing :: "VideoPlayer \<Rightarrow> VideoPlayer" where
  "show_playing s =
     (case get_video (playback s) of
        Inl e \<Rightarrow> print (Cannot GetPlaying (Exn e)) s
      | Inr v \<Rightarrow>
          (let st = state (playback s)
           in if st = STOPPED then print NoVideoPlaying s
              else print (CurrentlyPlaying v (flag s v) (st = PAUSED)) s))"

subsection \<open>Playlists\<close>

text \<open>
  The dictionary \<^verbatim>\<open>self._playlists\<close>: \<open>k in d\<close> is \<open>map_of d k \<noteq> None\<close>, \<open>d[k] = v\<close> is
  \<open>AList.update k v d\<close> (a new key goes last), \<open>del d[k]\<close> is \<open>AList.delete k d\<close>. A
  playlist object is changed in place, which is an update of its entry.
\<close>

definition create_playlist :: "string \<Rightarrow> VideoPlayer \<Rightarrow> VideoPlayer" where
  "create_playlist playlist_name0 s =
     (let playlist_name = join_split playlist_name0
      in if map_of (playlists s) (lower playlist_name) \<noteq> None
         then print (Cannot CreatePlaylist PlaylistExists) s
         else print (CreatedPlaylist playlist_name)
                (s\<lparr>playlists :=
                     AList.update (lower playlist_name) (new_Playlist playlist_name) (playlists s)\<rparr>))"

definition add_to_playlist :: "string \<Rightarrow> string \<Rightarrow> VideoPlayer \<Rightarrow> VideoPlayer" where
  "add_to_playlist playlist_name vid s =
     (case map_of (playlists s) (lower playlist_name) of
        None \<Rightarrow> print (Cannot (AddVideoTo playlist_name) PlaylistDoesNotExist) s
      | Some playlist \<Rightarrow>
          (case get_video_lib (video_library s) vid of
             None \<Rightarrow> print (Cannot (AddVideoTo playlist_name) VideoDoesNotExist) s
           | Some v \<Rightarrow>
               if truthy (flag s v)
               then print (Cannot (AddVideoTo playlist_name) (VideoFlagged (flag s v))) s
               else if v \<in> set (videos playlist)
               then print (Cannot (AddVideoTo playlist_name) VideoAlreadyAdded) s
               else print (AddedVideo playlist_name (title v))
                      (s\<lparr>playlists :=
                           AList.update (lower playlist_name)
                             (playlist\<lparr>videos := videos playlist @ [v]\<rparr>) (playlists s)\<rparr>)))"

text \<open>
  \<open>show_all_playlists\<close> prints \<^verbatim>\<open>self._playlists[playlist].name\<close> for the keys in sorted
  order: the entries of the dictionary, sorted by key.
\<close>

definition show_all_playlists :: "VideoPlayer \<Rightarrow> VideoPlayer" where
  "show_all_playlists s =
     (if length (playlists s) = 0 then print NoPlaylists s
      else fold (\<lambda>(k, playlist). print (PlaylistLine (name playlist)))
             (sort_key fst (playlists s)) (print AllPlaylistsHeader s))"

definition show_playlist :: "string \<Rightarrow> VideoPlayer \<Rightarrow> VideoPlayer" where
  "show_playlist playlist_name s =
     (case map_of (playlists s) (lower playlist_name) of
        None \<Rightarrow> print (Cannot (ShowPlaylist playlist_name) PlaylistDoesNotExist) s
      | Some playlist \<Rightarrow>
          (let s1 = print (ShowingPlaylist playlist_name) s
           in if videos playlist = [] then print NoVideosHere s1
              else fold (\<lambda>v. print (VideoLine v (flag s v))) (videos playlist) s1))"

text \<open>\<^verbatim>\<open>list.remove(x)\<close> takes out the first element equal to \<open>x\<close>: \<open>remove1\<close>.\<close>

definition remove_from_playlist :: "string \<Rightarrow> string \<Rightarrow> VideoPlayer \<Rightarrow> VideoPlayer" where
  "remove_from_playlist playlist_name vid s =
     (case map_of (playlists s) (lower playlist_name) of
        None \<Rightarrow> print (Cannot (RemoveVideoFrom playlist_name) PlaylistDoesNotExist) s
      | Some playlist \<Rightarrow>
          (case get_video_lib (video_library s) vid of
             None \<Rightarrow> print (Cannot (RemoveVideoFrom playlist_name) VideoDoesNotExist) s
           | Some v \<Rightarrow>
               if v \<notin> set (videos playlist)
               then print (Cannot (RemoveVideoFrom playlist_name) VideoNotInPlaylist) s
               else print (RemovedVideo playlist_name (title v))
                      (s\<lparr>playlists :=
                           AList.update (lower playlist_name)
                             (playlist\<lparr>videos := remove1 v (videos playlist)\<rparr>) (playlists s)\<rparr>)))"

definition clear_playlist :: "string \<Rightarrow> VideoPlayer \<Rightarrow> VideoPlayer" where
  "clear_playlist playlist_name s =
     (case map_of (playlists s) (lower playlist_name) of
        None \<Rightarrow> print (Cannot (ClearPlaylist playlist_name) PlaylistDoesNotExist) s
      | Some playlist \<Rightarrow>
          print (ClearedPlaylist playlist_name)
            (s\<lparr>playlists :=
                 AList.update (lower playlist_name) (playlist\<lparr>videos := []\<rparr>) (playlists s)\<rparr>))"

definition delete_playlist :: "string \<Rightarrow> VideoPlayer \<Rightarrow> VideoPlayer" where
  "delete_playlist playlist_name s =
     (if map_of (playlists s) (lower playlist_name) = None
      then print (Cannot (DeletePlaylist playlist_name) PlaylistDoesNotExist) s
      else print (DeletedPlaylist playlist_name)
             (s\<lparr>playlists := AList.delete (lower playlist_name) (playlists s)\<rparr>))"

subsection \<open>Search\<close>

text \<open>
  \<open>sorted\<close> is stable, as \<open>sort_key\<close> is. \<open>input()\<close> and \<open>int(answer)\<close> are outside
  any \<open>try\<close>: an \<open>EOFError\<close> or a \<open>ValueError\<close> leaves the method, which is the result
  \<open>Inl\<close>.
\<close>

definition search_general :: "string \<Rightarrow> video list \<Rightarrow> VideoPlayer \<Rightarrow> exn + VideoPlayer" where
  "search_general query result s =
     (let ordered = sort_key title result
      in if ordered = [] then Inr (print (NoSearchResults query) s)
         else
           (let s1 = print (ResultsHeader query) s;
                s2 = fold (\<lambda>i. print (NumberedVideo (i + 1) (ordered ! i) (flag s (ordered ! i))))
                       [0..<length ordered] s1;
                s3 = print PlayPrompt s2
            in case input s3 of
                 Inl e \<Rightarrow> Inl e
               | Inr (answer, s4) \<Rightarrow>
                   if \<not> isnumeric answer then Inr s4
                   else (case int_of_str answer of
                           Inl e \<Rightarrow> Inl e
                         | Inr ans \<Rightarrow>
                             if 0 < ans \<and> ans \<le> int (length ordered)
                             then Inr (play_video (video_id (ordered ! nat (ans - 1))) s4)
                             else Inr s4)))"

definition search_videos :: "string \<Rightarrow> VideoPlayer \<Rightarrow> exn + VideoPlayer" where
  "search_videos search_term s =
     search_general search_term
       (filter (\<lambda>v. str_in (lower search_term) (lower (title v))) (get_unflagged_videos s)) s"

definition search_videos_tag :: "string \<Rightarrow> VideoPlayer \<Rightarrow> exn + VideoPlayer" where
  "search_videos_tag video_tag s =
     search_general video_tag
       (filter (\<lambda>v. lower video_tag \<in> set (map lower (tags v))) (get_unflagged_videos s)) s"

subsection \<open>Flags\<close>

text \<open>
  A Video object is true in Python, so the test \<^verbatim>\<open>if not video\<close> after a successful
  \<^verbatim>\<open>self._video_library[video_id]\<close> never holds and has no branch here. \<open>flag_video\<close>
  calls \<^verbatim>\<open>self._playback.get_video()\<close> outside its \<open>try\<close>: an exception of that call
  would leave the method, which is the result \<open>Inl\<close>.
\<close>

definition flag_video :: "string \<Rightarrow> string \<Rightarrow> VideoPlayer \<Rightarrow> exn + VideoPlayer" where
  "flag_video vid flag_reason0 s =
     (case getitem (video_library s) vid of
        Inl e \<Rightarrow> Inr (print (Cannot FlagVideo (Exn e)) s)
      | Inr v \<Rightarrow>
          if truthy (flag s v) then Inr (print (Cannot FlagVideo VideoAlreadyFlagged) s)
          else
            (let flag_reason = (if flag_reason0 = [] then ''Not supplied'' else flag_reason0)
             in case (if state (playback s) \<noteq> STOPPED
                      then (case get_video (playback s) of
                              Inl e \<Rightarrow> Inl e
                            | Inr cur \<Rightarrow> Inr (if cur = v then stop_video s else s))
                      else Inr s) of
                  Inl e \<Rightarrow> Inl e
                | Inr s1 \<Rightarrow>
                    Inr (print (FlaggedVideo (title v) flag_reason)
                           (s1\<lparr>flags := (flags s1)(video_id v \<mapsto> flag_reason)\<rparr>))))"

definition allow_video :: "string \<Rightarrow> VideoPlayer \<Rightarrow> VideoPlayer" where
  "allow_video vid s =
     (case getitem (video_library s) vid of
        Inl e \<Rightarrow> print (Cannot RemoveFlag (Exn e)) s
      | Inr v \<Rightarrow>
          if \<not> truthy (flag s v) then print (Cannot RemoveFlag VideoNotFlagged) s
          else print (AllowedVideo (title v)) (s\<lparr>flags := (flags s)(video_id v := None)\<rparr>))"

subsection \<open>Every operation of the player\<close>

text \<open>
  The public operations of \<open>VideoPlayer\<close> with their arguments, and the call of one of them
  on a player. \<open>Flag_video\<close> with the empty string as reason is the call without a reason
  (the default \<^verbatim>\<open>flag_reason=""\<close>); the argument of \<open>Play_random_video\<close> is the random
  draw.
\<close>

datatype operation =
    Number_of_videos
  | Show_all_videos
  | Play_video string
  | Stop_video
  | Play_random_video nat
  | Pause_video
  | Continue_video
  | Show_playing
  | Create_playlist string
  | Add_to_playlist string string
  | Show_all_playlists
  | Show_playlist string
  | Remove_from_playlist string string
  | Clear_playlist string
  | Delete_playlist string
  | Search_videos string
  | Search_videos_tag string
  | Flag_video string string
  | Allow_video string

fun call :: "operation \<Rightarrow> VideoPlayer \<Rightarrow> exn + VideoPlayer" where
  "call Number_of_videos s = Inr (number_of_videos s)"
| "call Show_all_videos s = Inr (show_all_videos s)"
| "call (Play_video vid) s = Inr (play_video vid s)"
| "call Stop_video s = Inr (stop_video s)"
| "call (Play_random_video r) s = Inr (play_random_video r s)"
| "call Pause_video s = pause_video s"
| "call Continue_video s = Inr (continue_video s)"
| "call Show_playing s = Inr (show_playing s)"
| "call (Create_playlist n) s = Inr (create_playlist n s)"
| "call (Add_to_playlist n vid) s = Inr (add_to_playlist n vid s)"
| "call Show_all_playlists s = Inr (show_all_playlists s)"
| "call (Show_playlist n) s = Inr (show_playlist n s)"
| "call (Remove_from_playlist n vid) s = Inr (remove_from_playlist n vid s)"
| "call (Clear_playlist n) s = Inr (clear_playlist n s)"
| "call (Delete_playlist n) s = Inr (delete_playlist n s)"
| "call (Search_videos q) s = search_videos q s"
| "call (Search_videos_tag q) s = search_videos_tag q s"
| "call (Flag_video vid r) s = flag_video vid r s"
| "call (Allow_video vid) s = Inr (allow_video vid s)"

section \<open>Properties of the state\<close>

text \<open>
  The flag field of every video of the library is \<open>None\<close> or a non-empty string.
\<close>

definition flag_inv :: "VideoPlayer \<Rightarrow> bool" where
  "flag_inv s = list_all (\<lambda>v. flag s v \<noteq> Some []) (video_library s)"

section \<open>Example players\<close>

definition amazing_cats :: video where
  "amazing_cats =
     \<lparr>video_id = ''amazing_cats_video_id'', title = ''Amazing Cats'',
      tags = [''#cat'', ''#animal'']\<rparr>"

definition funny_dogs :: video where
  "funny_dogs =
     \<lparr>video_id = ''funny_dogs_video_id'', title = ''Funny Dogs'',
      tags = [''#dog'', ''#animal'']\<rparr>"

definition library :: "video list" where
  "library = [funny_dogs, amazing_cats]"

text \<open>A new player, with no input waiting.\<close>

definition new_player :: VideoPlayer where
  "new_player = init library []"

text \<open>The player after \<^verbatim>\<open>create_playlist("My List")\<close>.\<close>

definition my_list_player :: VideoPlayer where
  "my_list_player = create_playlist ''My List'' new_player"

text \<open>The player after \<^verbatim>\<open>play_video("amazing_cats_video_id")\<close>, and after a pause.\<close>

definition playing_cats :: VideoPlayer where
  "playing_cats = play_video ''amazing_cats_video_id'' new_player"

definition paused_cats :: VideoPlayer where
  "paused_cats = playing_cats\<lparr>playback := Paused amazing_cats,
     console := console playing_cats @ [PausingVideo ''Amazing Cats'']\<rparr>"

text \<open>
  The paused player after \<^verbatim>\<open>flag_video("funny_dogs_video_id", "dont_like_dogs")\<close>: the
  other video is flagged while the first is paused.
\<close>

definition paused_cats_flagged_dogs :: VideoPlayer where
  "paused_cats_flagged_dogs =
     paused_cats\<lparr>flags := [''funny_dogs_video_id'' \<mapsto> ''dont_like_dogs''],
       console := console paused_cats @ [FlaggedVideo ''Funny Dogs'' ''dont_like_dogs'']\<rparr>"

text \<open>
  The player after \<^verbatim>\<open>flag_video("amazing_cats_video_id", "dont_like_cats")\<close>: one video
  flagged, no playlist.
\<close>

definition flagged_cats :: VideoPlayer where
  "flagged_cats = new_player\<lparr>flags := [''amazing_cats_video_id'' \<mapsto> ''dont_like_cats''],
     console := [FlaggedVideo ''Amazing Cats'' ''dont_like_cats'']\<rparr>"

section \<open>Basic facts\<close>

lemma print_simps [simp]:
  "video_library (print l s) = video_library s"
  "flags (print l s) = flags s"
  "playback (print l s) = playback s"
  "playlists (print l s) = playlists s"
  "stdin (print l s) = stdin s"
  "console (print l s) = console s @ [l]"
  by (simp_all add: print_def)

lemma flag_print [simp]: "flag (print l s) v = flag s v"
  by (simp add: flag_def)

lemma fold_print: "fold (\<lambda>x. print (f x)) xs s = s\<lparr>console := console s @ map f xs\<rparr>"
  by (induction xs arbitrary: s) (simp_all add: print_def)

lemma get_video_lib_None: "get_video_lib lib vid = None \<longleftrightarrow> vid \<notin> video_id ` set lib"
  by (auto simp: get_video_lib_def find_None_iff)

lemma getitem_Inl:
  "getitem lib vid = Inl e \<longleftrightarrow> get_video_lib lib vid = None \<and> e = VideoLibraryError"
  by (auto simp add: getitem_def split: option.splits)

lemmas example_defs =
  new_player_def init_def library_def amazing_cats_def funny_dogs_def

lemma playing_cats_eq:
  "playing_cats =
     new_player\<lparr>playback := Playing amazing_cats, console := [PlayingVideo ''Amazing Cats'']\<rparr>"
  by (simp add: playing_cats_def example_defs play_video_def getitem_def
      get_video_lib_def flag_def truthy_def print_def)

lemmas player_defs =
  playing_cats_eq paused_cats_def flagged_cats_def paused_cats_flagged_dogs_def example_defs

lemma lower_examples:
  "lower ''my_playlist'' = ''my_playlist''"
  "lower ''my_PLAYlist'' = ''my_playlist''"
  "lower ''my_PLAYLIST'' = ''my_playlist''"
  "lower ''MyList'' = ''mylist''"
  "lower ''mylist'' = ''mylist''"
  "lower ''My List'' = ''my list''"
  "lower ''my list'' = ''my list''"
  by code_simp+

lemma join_split_examples:
  "join_split ''my_playlist'' = ''my_playlist''"
  "join_split ''My List'' = ''MyList''"
  by code_simp+

lemma my_list_player_eq:
  "my_list_player =
     new_player\<lparr>playlists := [(''mylist'', \<lparr>name = ''MyList'', videos = []\<rparr>)],
       console := [CreatedPlaylist ''MyList'']\<rparr>"
  by (simp add: my_list_player_def create_playlist_def Let_def join_split_examples lower_examples
      new_Playlist_def print_def) (simp add: example_defs)

text \<open>The example players are states that the player reaches.\<close>

lemma paused_cats_reached: "pause_video playing_cats = Inr paused_cats"
  by (simp add: paused_cats_def playing_cats_def example_defs play_video_def getitem_def
      get_video_lib_def pause_video_def flag_def truthy_def print_def)

lemma paused_cats_flagged_dogs_reached:
  "flag_video ''funny_dogs_video_id'' ''dont_like_dogs'' paused_cats =
     Inr paused_cats_flagged_dogs"
  by (simp add: player_defs flag_video_def getitem_def get_video_lib_def flag_def truthy_def
      print_def Let_def)

lemma flagged_cats_reached:
  "flag_video ''amazing_cats_video_id'' ''dont_like_cats'' new_player = Inr flagged_cats"
  by (simp add: flagged_cats_def example_defs flag_video_def getitem_def
      get_video_lib_def flag_def truthy_def print_def Let_def)

section \<open>Unknown videos\<close>

text \<open>
  C5. For a video identifier that the library does not have, \<open>play_video\<close>, \<open>flag_video\<close>
  and \<open>allow_video\<close> each print their line with the text of the \<open>VideoLibraryError\<close>
  (the outcome NotFound) and change nothing else: the playback, the playlists and the
  flags are those before the call.
\<close>

theorem unknown_video_not_found:
  assumes "vid \<notin> video_id ` set (video_library s)"
  shows "play_video vid s =
           s\<lparr>console := console s @ [Cannot PlayVideo (Exn VideoLibraryError)]\<rparr>
       \<and> flag_video vid r s =
           Inr (s\<lparr>console := console s @ [Cannot FlagVideo (Exn VideoLibraryError)]\<rparr>)
       \<and> allow_video vid s =
           s\<lparr>console := console s @ [Cannot RemoveFlag (Exn VideoLibraryError)]\<rparr>"
proof -
  from assms have "getitem (video_library s) vid = Inl VideoLibraryError"
    by (simp add: getitem_Inl get_video_lib_None)
  then show ?thesis
    by (simp add: play_video_def flag_video_def allow_video_def print_def)
qed

theorem unknown_video_not_found_witness:
  "''no_such_video_id'' \<notin> video_id ` set (video_library new_player)
   \<and> play_video ''no_such_video_id'' new_player =
       new_player\<lparr>console := [Cannot PlayVideo (Exn VideoLibraryError)]\<rparr>
   \<and> flag_video ''no_such_video_id'' ''dont_like_it'' new_player =
       Inr (new_player\<lparr>console := [Cannot FlagVideo (Exn VideoLibraryError)]\<rparr>)
   \<and> allow_video ''no_such_video_id'' new_player =
       new_player\<lparr>console := [Cannot RemoveFlag (Exn VideoLibraryError)]\<rparr>"
proof -
  have h: "''no_such_video_id'' \<notin> video_id ` set (video_library new_player)"
    by (simp add: example_defs)
  have c: "console new_player = []"
    by (simp add: example_defs)
  show ?thesis
    using h unknown_video_not_found [OF h, of "''dont_like_it''"] by (simp add: c)
qed

section \<open>Playlist names\<close>

text \<open>
  C1. The claim: every operation that looks a playlist up (\<open>add_to_playlist\<close>,
  \<open>remove_from_playlist\<close>, \<open>clear_playlist\<close>, \<open>delete_playlist\<close>, \<open>show_playlist\<close>) strips
  the whitespace of the name and lower-cases it, so that a playlist created as
  \<^verbatim>\<open>My List\<close> is found under \<^verbatim>\<open>My List\<close>, \<^verbatim>\<open>my list\<close> and \<^verbatim>\<open>MyList\<close>. The code: only
  \<open>create_playlist\<close> strips the whitespace; the five lookups only lower-case. After
  \<^verbatim>\<open>create_playlist("My List")\<close> the playlist is stored under the key \<^verbatim>\<open>mylist\<close>; each of
  the five operations, given \<^verbatim>\<open>My List\<close>, looks up \<^verbatim>\<open>my list\<close> and prints that the playlist
  does not exist, as \<open>show_playlist\<close> does for \<^verbatim>\<open>my list\<close>; \<^verbatim>\<open>MyList\<close> is found.
\<close>

theorem my_list_lookups:
  "playlists my_list_player = [(''mylist'', \<lparr>name = ''MyList'', videos = []\<rparr>)]
   \<and> add_to_playlist ''My List'' ''amazing_cats_video_id'' my_list_player =
       print (Cannot (AddVideoTo ''My List'') PlaylistDoesNotExist) my_list_player
   \<and> remove_from_playlist ''My List'' ''amazing_cats_video_id'' my_list_player =
       print (Cannot (RemoveVideoFrom ''My List'') PlaylistDoesNotExist) my_list_player
   \<and> clear_playlist ''My List'' my_list_player =
       print (Cannot (ClearPlaylist ''My List'') PlaylistDoesNotExist) my_list_player
   \<and> delete_playlist ''My List'' my_list_player =
       print (Cannot (DeletePlaylist ''My List'') PlaylistDoesNotExist) my_list_player
   \<and> show_playlist ''My List'' my_list_player =
       print (Cannot (ShowPlaylist ''My List'') PlaylistDoesNotExist) my_list_player
   \<and> show_playlist ''my list'' my_list_player =
       print (Cannot (ShowPlaylist ''my list'') PlaylistDoesNotExist) my_list_player
   \<and> show_playlist ''MyList'' my_list_player =
       print NoVideosHere (print (ShowingPlaylist ''MyList'') my_list_player)"
  by (simp add: my_list_player_eq add_to_playlist_def remove_from_playlist_def clear_playlist_def
      delete_playlist_def show_playlist_def lower_examples)

section \<open>Adding a flagged video\<close>

text \<open>
  C2. The claim: \<open>add_to_playlist\<close> of a flagged video fails with Flagged whether the
  playlist exists or not. The code checks the playlist first. As the code has it: for a
  video of the library that is flagged, \<open>add_to_playlist\<close> prints that the playlist does
  not exist when it does not, and that the video is flagged (with the reason) when the
  playlist exists; in both cases nothing but the console changes.
\<close>

theorem add_flagged_video:
  assumes "get_video_lib (video_library s) vid = Some v"
      and "flag s v = Some r" and "r \<noteq> []"
  shows "add_to_playlist n vid s =
           (if map_of (playlists s) (lower n) = None
            then s\<lparr>console := console s @ [Cannot (AddVideoTo n) PlaylistDoesNotExist]\<rparr>
            else s\<lparr>console := console s @ [Cannot (AddVideoTo n) (VideoFlagged (Some r))]\<rparr>)"
  using assms by (auto simp add: add_to_playlist_def truthy_def print_def split: option.splits)

theorem add_flagged_video_witness:
  "get_video_lib (video_library (create_playlist ''my_playlist'' flagged_cats))
       ''amazing_cats_video_id'' = Some amazing_cats
   \<and> flag (create_playlist ''my_playlist'' flagged_cats) amazing_cats = Some ''dont_like_cats''
   \<and> ''dont_like_cats'' \<noteq> []
   \<and> map_of (playlists (create_playlist ''my_playlist'' flagged_cats)) (lower ''my_PLAYlist'') \<noteq> None
   \<and> console (add_to_playlist ''my_PLAYlist'' ''amazing_cats_video_id''
         (create_playlist ''my_playlist'' flagged_cats)) =
       [FlaggedVideo ''Amazing Cats'' ''dont_like_cats'', CreatedPlaylist ''my_playlist'',
        Cannot (AddVideoTo ''my_PLAYlist'') (VideoFlagged (Some ''dont_like_cats''))]"
proof -
  let ?s = "create_playlist ''my_playlist'' flagged_cats"
  have h1: "get_video_lib (video_library ?s) ''amazing_cats_video_id'' = Some amazing_cats"
    by (simp add: create_playlist_def player_defs get_video_lib_def Let_def)
  have h2: "flag ?s amazing_cats = Some ''dont_like_cats''"
    by (simp add: create_playlist_def player_defs flag_def Let_def)
  have h3: "''dont_like_cats'' \<noteq> []"
    by simp
  have p: "map_of (playlists ?s) (lower ''my_PLAYlist'') \<noteq> None"
    by (simp add: create_playlist_def player_defs Let_def lower_examples join_split_examples)
  have c: "console ?s = [FlaggedVideo ''Amazing Cats'' ''dont_like_cats'', CreatedPlaylist ''my_playlist'']"
    by (simp add: create_playlist_def player_defs Let_def lower_examples join_split_examples)
  show ?thesis
    using add_flagged_video [OF h1 h2 h3, of "''my_PLAYlist''"] h1 h2 p c by simp
qed

text \<open>
  With the one video flagged and no playlist, the line is the one of the missing
  playlist, not the one of the flag.
\<close>

theorem add_flagged_video_counterexample:
  "get_video_lib (video_library flagged_cats) ''amazing_cats_video_id'' = Some amazing_cats
   \<and> flag flagged_cats amazing_cats = Some ''dont_like_cats''
   \<and> add_to_playlist ''my_playlist'' ''amazing_cats_video_id'' flagged_cats =
       print (Cannot (AddVideoTo ''my_playlist'') PlaylistDoesNotExist) flagged_cats
   \<and> Cannot (AddVideoTo ''my_playlist'') PlaylistDoesNotExist \<noteq>
       Cannot (AddVideoTo ''my_playlist'') (VideoFlagged (Some ''dont_like_cats''))"
  by (simp add: player_defs add_to_playlist_def get_video_lib_def flag_def lower_examples)

section \<open>Continuing\<close>

text \<open>
  C3. The claim: \<open>continue_video\<close> succeeds exactly from PAUSED; from STOPPED it reports
  NotPaused and from PLAYING it reports NoVideoPlaying. The code has the two failures the
  other way round. As the code has it: from PAUSED the video plays again, the current
  video unchanged; from STOPPED the line is the one of the \<open>VideoPlaybackError\<close>
  (NoVideoPlaying); from PLAYING the line is "Video is not paused" (NotPaused); in both
  failures nothing but the console changes.
\<close>

theorem continue_video_outcomes:
  "(state (playback s) = PAUSED \<longrightarrow>
      (\<exists>v. current (playback s) = Some v
         \<and> continue_video s =
             s\<lparr>playback := Playing v, console := console s @ [ContinuingVideo (title v)]\<rparr>))
   \<and> (state (playback s) = STOPPED \<longrightarrow>
        continue_video s =
          s\<lparr>console := console s @ [Cannot ContinueVideo (Exn VideoPlaybackError)]\<rparr>)
   \<and> (state (playback s) = PLAYING \<longrightarrow>
        continue_video s = s\<lparr>console := console s @ [Cannot ContinueVideo VideoNotPaused]\<rparr>)"
  by (cases "playback s") (simp_all add: continue_video_def print_def)

theorem continue_video_outcomes_witness:
  "state (playback paused_cats) = PAUSED
   \<and> continue_video paused_cats =
       paused_cats\<lparr>playback := Playing amazing_cats,
         console := console paused_cats @ [ContinuingVideo ''Amazing Cats'']\<rparr>
   \<and> state (playback new_player) = STOPPED
   \<and> continue_video new_player =
       new_player\<lparr>console := [Cannot ContinueVideo (Exn VideoPlaybackError)]\<rparr>
   \<and> state (playback playing_cats) = PLAYING
   \<and> continue_video playing_cats =
       playing_cats\<lparr>console := console playing_cats @ [Cannot ContinueVideo VideoNotPaused]\<rparr>"
proof -
  have h: "state (playback paused_cats) = PAUSED" "state (playback new_player) = STOPPED"
      "state (playback playing_cats) = PLAYING"
    by (simp_all add: player_defs)
  have c: "current (playback paused_cats) = Some amazing_cats" "title amazing_cats = ''Amazing Cats''"
     "console new_player = []"
    by (simp_all add: player_defs)
  show ?thesis
    using continue_video_outcomes [of paused_cats] continue_video_outcomes [of new_player]
      continue_video_outcomes [of playing_cats] h c
    by auto
qed

text \<open>A new player is STOPPED and gets the line of NoVideoPlaying, not that of NotPaused.\<close>

theorem continue_video_counterexample:
  "state (playback new_player) = STOPPED
   \<and> continue_video new_player =
       print (Cannot ContinueVideo (Exn VideoPlaybackError)) new_player
   \<and> Cannot ContinueVideo (Exn VideoPlaybackError) \<noteq> Cannot ContinueVideo VideoNotPaused
   \<and> state (playback playing_cats) = PLAYING
   \<and> continue_video playing_cats = print (Cannot ContinueVideo VideoNotPaused) playing_cats"
  by (simp add: playing_cats_eq continue_video_def) (simp add: example_defs)

section \<open>Playing while a video is current\<close>

text \<open>
  C4. When \<open>play_video\<close> is called with the identifier of a video of the library while
  the playback is PLAYING or PAUSED, the current video is stopped first, with its own line
  "Stopping video", and only then is the flag of the requested video looked at: if it is
  flagged, the next line is the one of the flag and the playback ends STOPPED with no
  current video; otherwise the requested video plays.
\<close>

theorem play_video_stops_first:
  assumes "get_video_lib (video_library s) vid = Some v"
      and "state (playback s) = PLAYING \<or> state (playback s) = PAUSED"
  shows "\<exists>cur. current (playback s) = Some cur
     \<and> play_video vid s =
         (if truthy (flag s v)
          then s\<lparr>playback := Stopped,
                 console := console s @
                   [StoppingVideo (title cur), Cannot PlayVideo (VideoFlagged (flag s v))]\<rparr>
          else s\<lparr>playback := Playing v,
                 console := console s @ [StoppingVideo (title cur), PlayingVideo (title v)]\<rparr>)"
  using assms
  by (cases "playback s")
     (simp_all add: play_video_def getitem_def stop_video_def print_def flag_def)

theorem play_video_stops_first_witness:
  "get_video_lib (video_library playing_cats) ''funny_dogs_video_id'' = Some funny_dogs
   \<and> state (playback playing_cats) = PLAYING
   \<and> play_video ''funny_dogs_video_id'' playing_cats =
       playing_cats\<lparr>playback := Playing funny_dogs,
         console := [PlayingVideo ''Amazing Cats'', StoppingVideo ''Amazing Cats'',
                     PlayingVideo ''Funny Dogs'']\<rparr>
   \<and> get_video_lib (video_library paused_cats_flagged_dogs) ''funny_dogs_video_id'' =
       Some funny_dogs
   \<and> state (playback paused_cats_flagged_dogs) = PAUSED
   \<and> flag paused_cats_flagged_dogs funny_dogs = Some ''dont_like_dogs''
   \<and> state (playback (play_video ''funny_dogs_video_id'' paused_cats_flagged_dogs)) = STOPPED
   \<and> current (playback (play_video ''funny_dogs_video_id'' paused_cats_flagged_dogs)) = None
   \<and> console (play_video ''funny_dogs_video_id'' paused_cats_flagged_dogs) =
       [PlayingVideo ''Amazing Cats'', PausingVideo ''Amazing Cats'',
        FlaggedVideo ''Funny Dogs'' ''dont_like_dogs'', StoppingVideo ''Amazing Cats'',
        Cannot PlayVideo (VideoFlagged (Some ''dont_like_dogs''))]"
proof -
  let ?t = "paused_cats_flagged_dogs"
  have a1: "get_video_lib (video_library playing_cats) ''funny_dogs_video_id'' = Some funny_dogs"
    by (simp add: player_defs get_video_lib_def)
  have a2: "state (playback playing_cats) = PLAYING \<or> state (playback playing_cats) = PAUSED"
    by (simp add: player_defs)
  have a3: "current (playback playing_cats) = Some amazing_cats"
      "\<not> truthy (flag playing_cats funny_dogs)"
      "console playing_cats = [PlayingVideo ''Amazing Cats'']"
      "state (playback playing_cats) = PLAYING"
    by (simp_all add: player_defs flag_def truthy_def)
  have b1: "get_video_lib (video_library ?t) ''funny_dogs_video_id'' = Some funny_dogs"
    by (simp add: player_defs get_video_lib_def)
  have b2: "state (playback ?t) = PLAYING \<or> state (playback ?t) = PAUSED"
    by (simp add: player_defs)
  have b3: "current (playback ?t) = Some amazing_cats" "state (playback ?t) = PAUSED"
      "truthy (flag ?t funny_dogs)" "flag ?t funny_dogs = Some ''dont_like_dogs''"
      "console ?t = [PlayingVideo ''Amazing Cats'', PausingVideo ''Amazing Cats'',
         FlaggedVideo ''Funny Dogs'' ''dont_like_dogs'']"
    by (simp_all add: player_defs flag_def truthy_def)
  have t: "title amazing_cats = ''Amazing Cats''" "title funny_dogs = ''Funny Dogs''"
    by (simp_all add: player_defs)
  from play_video_stops_first [OF a1 a2] a3 t
  have A: "play_video ''funny_dogs_video_id'' playing_cats =
       playing_cats\<lparr>playback := Playing funny_dogs,
         console := [PlayingVideo ''Amazing Cats'', StoppingVideo ''Amazing Cats'',
                     PlayingVideo ''Funny Dogs'']\<rparr>"
    by auto
  from play_video_stops_first [OF b1 b2] b3 t
  have B: "play_video ''funny_dogs_video_id'' ?t =
       ?t\<lparr>playback := Stopped,
         console := [PlayingVideo ''Amazing Cats'', PausingVideo ''Amazing Cats'',
           FlaggedVideo ''Funny Dogs'' ''dont_like_dogs'', StoppingVideo ''Amazing Cats'',
           Cannot PlayVideo (VideoFlagged (Some ''dont_like_dogs''))]\<rparr>"
    by auto
  show ?thesis
    using a1 a3 b1 b3 by (simp add: A B)
qed

section \<open>Adding and removing\<close>

text \<open>
  C6. When \<open>add_to_playlist\<close> succeeds (the playlist exists, the video exists, is not
  flagged and is not in the playlist), the video is appended, and \<open>remove_from_playlist\<close>
  of the same video right after gives the playlist its videos of before the add, in their
  order; the player is as before but for the two lines printed.
\<close>

theorem add_then_remove:
  assumes "map_of (playlists s) (lower n) = Some p"
      and "get_video_lib (video_library s) vid = Some v"
      and "\<not> truthy (flag s v)"
      and "v \<notin> set (videos p)"
  shows "map_of (playlists (add_to_playlist n vid s)) (lower n) =
           Some (p\<lparr>videos := videos p @ [v]\<rparr>)
       \<and> console (add_to_playlist n vid s) = console s @ [AddedVideo n (title v)]
       \<and> map_of (playlists (remove_from_playlist n vid (add_to_playlist n vid s))) (lower n) =
           Some p
       \<and> remove_from_playlist n vid (add_to_playlist n vid s) =
           s\<lparr>console := console s @ [AddedVideo n (title v), RemovedVideo n (title v)]\<rparr>"
proof -
  let ?s1 = "add_to_playlist n vid s"
  have add: "?s1 = s\<lparr>playlists := AList.update (lower n) (p\<lparr>videos := videos p @ [v]\<rparr>) (playlists s),
                      console := console s @ [AddedVideo n (title v)]\<rparr>"
    using assms by (simp add: add_to_playlist_def print_def)
  have look: "map_of (playlists ?s1) (lower n) = Some (p\<lparr>videos := videos p @ [v]\<rparr>)"
    by (simp add: add update_conv')
  have undo: "remove1 v (videos p @ [v]) = videos p"
    using assms(4) by (simp add: remove1_append)
  have triv: "AList.update (lower n) p (playlists s) = playlists s"
    using assms(1) by (rule update_triv)
  have lib: "get_video_lib (video_library ?s1) vid = Some v"
    using assms(2) by (simp add: add)
  have rem: "remove_from_playlist n vid ?s1 =
      s\<lparr>console := console s @ [AddedVideo n (title v), RemovedVideo n (title v)]\<rparr>"
    unfolding remove_from_playlist_def
    by (simp add: look lib) (simp add: add undo triv print_def)
  show ?thesis
    using look rem assms(1) by (simp add: add)
qed

theorem add_then_remove_witness:
  "map_of (playlists (create_playlist ''my_playlist'' playing_cats)) (lower ''my_PLAYLIST'') =
      Some \<lparr>name = ''my_playlist'', videos = []\<rparr>
   \<and> get_video_lib (video_library (create_playlist ''my_playlist'' playing_cats))
        ''amazing_cats_video_id'' = Some amazing_cats
   \<and> \<not> truthy (flag (create_playlist ''my_playlist'' playing_cats) amazing_cats)
   \<and> amazing_cats \<notin> set (videos \<lparr>name = ''my_playlist'', videos = []\<rparr>)
   \<and> map_of (playlists (add_to_playlist ''my_PLAYLIST'' ''amazing_cats_video_id''
          (create_playlist ''my_playlist'' playing_cats))) (lower ''my_PLAYLIST'') =
        Some \<lparr>name = ''my_playlist'', videos = [amazing_cats]\<rparr>
   \<and> map_of (playlists (remove_from_playlist ''my_PLAYLIST'' ''amazing_cats_video_id''
          (add_to_playlist ''my_PLAYLIST'' ''amazing_cats_video_id''
            (create_playlist ''my_playlist'' playing_cats)))) (lower ''my_PLAYLIST'') =
        Some \<lparr>name = ''my_playlist'', videos = []\<rparr>"
proof -
  let ?s = "create_playlist ''my_playlist'' playing_cats"
  let ?p = "\<lparr>name = ''my_playlist'', videos = []\<rparr>"
  have h1: "map_of (playlists ?s) (lower ''my_PLAYLIST'') = Some ?p"
    by (simp add: create_playlist_def player_defs Let_def lower_examples join_split_examples
        new_Playlist_def)
  have h2: "get_video_lib (video_library ?s) ''amazing_cats_video_id'' = Some amazing_cats"
    by (simp add: create_playlist_def player_defs get_video_lib_def Let_def)
  have h3: "\<not> truthy (flag ?s amazing_cats)"
    by (simp add: create_playlist_def player_defs flag_def truthy_def Let_def)
  have h4: "amazing_cats \<notin> set (videos ?p)"
    by simp
  show ?thesis
    using add_then_remove [OF h1 h2 h3 h4] h1 h2 h3 by simp
qed

section \<open>Pausing twice\<close>

text \<open>
  C7. When a video is current and PAUSED, \<open>pause_video\<close> prints "Video already paused"
  and changes nothing else; so from PLAYING, a second \<open>pause_video\<close> leaves the playback
  where the first one put it.
\<close>

theorem pause_video_idempotent:
  "(playback s = Paused v \<longrightarrow>
      pause_video s = Inr (s\<lparr>console := console s @ [AlreadyPaused (title v)]\<rparr>))
   \<and> (playback s = Playing v \<longrightarrow>
        (\<exists>s1 s2. pause_video s = Inr s1 \<and> pause_video s1 = Inr s2
           \<and> s1 = s\<lparr>playback := Paused v, console := console s @ [PausingVideo (title v)]\<rparr>
           \<and> s2 = s1\<lparr>console := console s1 @ [AlreadyPaused (title v)]\<rparr>
           \<and> playback s2 = playback s1))"
  by (simp add: pause_video_def print_def)

theorem pause_video_idempotent_witness:
  "playback playing_cats = Playing amazing_cats
   \<and> pause_video playing_cats = Inr paused_cats
   \<and> playback paused_cats = Paused amazing_cats
   \<and> pause_video paused_cats =
       Inr (paused_cats\<lparr>console := console paused_cats @ [AlreadyPaused ''Amazing Cats'']\<rparr>)"
proof -
  have h: "playback playing_cats = Playing amazing_cats" "playback paused_cats = Paused amazing_cats"
      "title amazing_cats = ''Amazing Cats''"
    by (simp_all add: player_defs)
  show ?thesis
    using pause_video_idempotent [of paused_cats amazing_cats] h paused_cats_reached by simp
qed

section \<open>Search\<close>

text \<open>
  A search with no match prints "No search results" and reads nothing. With matches, an
  answer that is not numeric, or that is a number out of range, is read and nothing more
  happens.
\<close>

lemma search_general_no_results:
  "search_general q [] s = Inr (s\<lparr>console := console s @ [NoSearchResults q]\<rparr>)"
  by (simp add: search_general_def print_def)

lemma search_no_results:
  "filter (\<lambda>v. str_in (lower q) (lower (title v))) (get_unflagged_videos s) = [] \<Longrightarrow>
     search_videos q s = Inr (s\<lparr>console := console s @ [NoSearchResults q]\<rparr>)"
  "filter (\<lambda>v. lower q \<in> set (map lower (tags v))) (get_unflagged_videos s) = [] \<Longrightarrow>
     search_videos_tag q s = Inr (s\<lparr>console := console s @ [NoSearchResults q]\<rparr>)"
  by (simp_all add: search_videos_def search_videos_tag_def search_general_no_results)

lemma sort_key_Nil_iff: "sort_key f xs = [] \<longleftrightarrow> xs = []"
  by (metis length_sort length_0_conv)

lemma search_general_no_selection:
  assumes "result \<noteq> []" and "stdin s = answer # rest"
      and "\<not> isnumeric answer
           \<or> (\<exists>k. int_of_str answer = Inr k \<and> \<not> (0 < k \<and> k \<le> int (length result)))"
  shows "search_general q result s =
           Inr (s\<lparr>console := console s @ ResultsHeader q #
                    map (\<lambda>i. NumberedVideo (i + 1) (sort_key title result ! i)
                               (flag s (sort_key title result ! i)))
                      [0..<length result] @ [PlayPrompt],
                  stdin := rest\<rparr>)"
  using assms
  by (auto simp add: search_general_def Let_def sort_key_Nil_iff fold_print print_def input_def)

lemma fraction_answer_console:
  "map_sum id console (search_videos ''cat'' (init library [[CHR 0xBD]])) = Inl ValueError"
  "map_sum id console (search_videos_tag ''#CAT'' (init library [[CHR 0xBD]])) = Inl ValueError"
  by code_simp+

lemma map_sum_Inl: "map_sum id f x = Inl e \<Longrightarrow> x = Inl e"
  by (cases x) simp_all

text \<open>
  C8. The claim: a search with no match reports "no results" and reads no selection; with
  matches, an answer that is non-numeric or out of range has no further effect, and no
  error. The code guards \<open>int(answer)\<close> with \<open>answer.isnumeric()\<close>, which also holds of
  characters that \<open>int\<close> does not read. The answer \<^verbatim>\<open>\<onehalf>\<close> (the one character 0xBD, one
  half) is no number of a listed video; it passes \<open>isnumeric\<close>, and \<open>int\<close> raises
  \<open>ValueError\<close>, which leaves the search, by title and by tag.
\<close>

theorem search_fraction_answer:
  "filter (\<lambda>v. str_in (lower ''cat'') (lower (title v)))
      (get_unflagged_videos (init library [[CHR 0xBD]])) = [amazing_cats]
   \<and> filter (\<lambda>v. lower ''#CAT'' \<in> set (map lower (tags v)))
      (get_unflagged_videos (init library [[CHR 0xBD]])) = [amazing_cats]
   \<and> isnumeric [CHR 0xBD]
   \<and> search_videos ''cat'' (init library [[CHR 0xBD]]) = Inl ValueError
   \<and> search_videos_tag ''#CAT'' (init library [[CHR 0xBD]]) = Inl ValueError"
proof -
  have "filter (\<lambda>v. str_in (lower ''cat'') (lower (title v)))
      (get_unflagged_videos (init library [[CHR 0xBD]])) = [amazing_cats]"
    by code_simp
  moreover have "filter (\<lambda>v. lower ''#CAT'' \<in> set (map lower (tags v)))
      (get_unflagged_videos (init library [[CHR 0xBD]])) = [amazing_cats]"
    by code_simp
  moreover have "isnumeric [CHR 0xBD]"
    by code_simp
  ultimately show ?thesis
    by (simp add: fraction_answer_console [THEN map_sum_Inl])
qed

section \<open>The flag field\<close>

lemma stop_video_frame [simp]:
  "video_library (stop_video s) = video_library s" "flags (stop_video s) = flags s"
  "playlists (stop_video s) = playlists s" "stdin (stop_video s) = stdin s"
  by (cases "playback s"; simp add: stop_video_def)+

lemma play_video_frame [simp]:
  "video_library (play_video vid s) = video_library s" "flags (play_video vid s) = flags s"
  by (simp_all add: play_video_def Let_def split: sum.splits)

lemma flag_inv_same:
  "flag_inv s \<Longrightarrow> video_library s' = video_library s \<and> flags s' = flags s \<Longrightarrow> flag_inv s'"
  by (simp add: flag_inv_def flag_def)

lemma fold_print_prod:
  "fold (\<lambda>(k, p). print (f k p)) xs s = s\<lparr>console := console s @ map (\<lambda>(k, p). f k p) xs\<rparr>"
  by (induction xs arbitrary: s) (simp_all add: print_def split: prod.splits)

lemma flag_inv_init: "flag_inv (init lib inp)"
  by (simp add: flag_inv_def flag_def init_def list_all_iff)

lemma pause_video_frame:
  "pause_video s = Inr s' \<Longrightarrow> video_library s' = video_library s \<and> flags s' = flags s"
  by (auto simp add: pause_video_def Let_def split: sum.splits if_splits)

lemma search_general_frame:
  "search_general q r s = Inr s' \<Longrightarrow> video_library s' = video_library s \<and> flags s' = flags s"
  by (auto simp add: search_general_def Let_def fold_print input_def
      split: sum.splits if_splits list.splits)

lemma flag_video_flags:
  assumes "flag_video vid r s = Inr s'"
  shows "video_library s' = video_library s"
    and "flags s' = flags s
         \<or> (\<exists>i. flags s' = (flags s)(i \<mapsto> (if r = [] then ''Not supplied'' else r)))"
  using assms
  by (auto simp add: flag_video_def Let_def getitem_def split: sum.splits if_splits option.splits)

lemma allow_video_flags:
  "video_library (allow_video vid s) = video_library s"
  "flags (allow_video vid s) = flags s \<or> (\<exists>i. flags (allow_video vid s) = (flags s)(i := None))"
  by (auto simp add: allow_video_def split: sum.splits)

lemma flag_inv_upd_Some:
  "flag_inv s \<Longrightarrow> video_library s' = video_library s \<Longrightarrow> r \<noteq> [] \<Longrightarrow>
     flags s' = (flags s)(i \<mapsto> r) \<Longrightarrow> flag_inv s'"
  by (simp add: flag_inv_def flag_def list_all_iff)

lemma flag_inv_upd_None:
  "flag_inv s \<Longrightarrow> video_library s' = video_library s \<Longrightarrow>
     flags s' = (flags s)(i := None) \<Longrightarrow> flag_inv s'"
  by (simp add: flag_inv_def flag_def list_all_iff)

lemma read_only_frame:
  "video_library (number_of_videos s) = video_library s \<and> flags (number_of_videos s) = flags s"
  "video_library (show_all_videos s) = video_library s \<and> flags (show_all_videos s) = flags s"
  "video_library (play_random_video n s) = video_library s \<and> flags (play_random_video n s) = flags s"
  "video_library (continue_video s) = video_library s \<and> flags (continue_video s) = flags s"
  "video_library (show_playing s) = video_library s \<and> flags (show_playing s) = flags s"
  "video_library (show_all_playlists s) = video_library s \<and> flags (show_all_playlists s) = flags s"
  by (simp_all add: number_of_videos_def show_all_videos_def fold_print
      play_random_video_def continue_video_def show_playing_def show_all_playlists_def
      fold_print_prod Let_def split: option.splits sum.splits)

lemma playlist_frame:
  "video_library (create_playlist n s) = video_library s \<and> flags (create_playlist n s) = flags s"
  "video_library (add_to_playlist n vid s) = video_library s \<and> flags (add_to_playlist n vid s) = flags s"
  "video_library (show_playlist n s) = video_library s \<and> flags (show_playlist n s) = flags s"
  "video_library (remove_from_playlist n vid s) = video_library s
     \<and> flags (remove_from_playlist n vid s) = flags s"
  "video_library (clear_playlist n s) = video_library s \<and> flags (clear_playlist n s) = flags s"
  "video_library (delete_playlist n s) = video_library s \<and> flags (delete_playlist n s) = flags s"
  by (simp_all add: create_playlist_def add_to_playlist_def show_playlist_def fold_print
      remove_from_playlist_def clear_playlist_def delete_playlist_def
      Let_def split: option.splits)

lemma call_keeps_flag_inv:
  assumes "flag_inv s" and "call m s = Inr s'"
  shows "flag_inv s'"
proof (cases m)
  case (Flag_video vid r)
  with assms(2) have f: "flag_video vid r s = Inr s'" by simp
  note lib = flag_video_flags(1) [OF f]
  from flag_video_flags(2) [OF f] show ?thesis
  proof
    assume "flags s' = flags s"
    with assms(1) lib show ?thesis by (simp add: flag_inv_same)
  next
    assume "\<exists>i. flags s' = (flags s)(i \<mapsto> (if r = [] then ''Not supplied'' else r))"
    then obtain i where i: "flags s' = (flags s)(i \<mapsto> (if r = [] then ''Not supplied'' else r))" ..
    have "(if r = [] then ''Not supplied'' else r) \<noteq> []" by simp
    from flag_inv_upd_Some [OF assms(1) lib this i] show ?thesis .
  qed
next
  case (Allow_video vid)
  with assms(2) have s': "s' = allow_video vid s" by simp
  have lib: "video_library s' = video_library s"
    by (simp add: s' allow_video_flags(1))
  from allow_video_flags(2) [of vid s] show ?thesis
  proof
    assume "flags (allow_video vid s) = flags s"
    with assms(1) lib show ?thesis by (simp add: flag_inv_same s')
  next
    assume "\<exists>i. flags (allow_video vid s) = (flags s)(i := None)"
    then obtain i where "flags s' = (flags s)(i := None)" unfolding s' ..
    from flag_inv_upd_None [OF assms(1) lib this] show ?thesis .
  qed
next
  case Pause_video
  with assms(2) have "pause_video s = Inr s'" by simp
  from assms(1) pause_video_frame [OF this] show ?thesis by (rule flag_inv_same)
next
  case (Search_videos q)
  with assms(2) have "video_library s' = video_library s \<and> flags s' = flags s"
    by (simp add: search_videos_def search_general_frame)
  with assms(1) show ?thesis by (rule flag_inv_same)
next
  case (Search_videos_tag q)
  with assms(2) have "video_library s' = video_library s \<and> flags s' = flags s"
    by (simp add: search_videos_tag_def search_general_frame)
  with assms(1) show ?thesis by (rule flag_inv_same)
next
  case Number_of_videos
  with assms(2) have "s' = number_of_videos s" by simp
  with assms(1) show ?thesis by (simp add: flag_inv_same read_only_frame)
next
  case Show_all_videos
  with assms(2) have "s' = show_all_videos s" by simp
  with assms(1) show ?thesis by (simp add: flag_inv_same read_only_frame)
next
  case (Play_video vid)
  with assms(2) have "s' = play_video vid s" by simp
  with assms(1) show ?thesis by (simp add: flag_inv_same)
next
  case Stop_video
  with assms(2) have "s' = stop_video s" by simp
  with assms(1) show ?thesis by (simp add: flag_inv_same)
next
  case (Play_random_video n)
  with assms(2) have "s' = play_random_video n s" by simp
  with assms(1) show ?thesis by (simp add: flag_inv_same read_only_frame)
next
  case Continue_video
  with assms(2) have "s' = continue_video s" by simp
  with assms(1) show ?thesis by (simp add: flag_inv_same read_only_frame)
next
  case Show_playing
  with assms(2) have "s' = show_playing s" by simp
  with assms(1) show ?thesis by (simp add: flag_inv_same read_only_frame)
next
  case (Create_playlist n)
  with assms(2) have "s' = create_playlist n s" by simp
  with assms(1) show ?thesis by (simp add: flag_inv_same playlist_frame)
next
  case (Add_to_playlist n vid)
  with assms(2) have "s' = add_to_playlist n vid s" by simp
  with assms(1) show ?thesis by (simp add: flag_inv_same playlist_frame)
next
  case Show_all_playlists
  with assms(2) have "s' = show_all_playlists s" by simp
  with assms(1) show ?thesis by (simp add: flag_inv_same read_only_frame)
next
  case (Show_playlist n)
  with assms(2) have "s' = show_playlist n s" by simp
  with assms(1) show ?thesis by (simp add: flag_inv_same playlist_frame)
next
  case (Remove_from_playlist n vid)
  with assms(2) have "s' = remove_from_playlist n vid s" by simp
  with assms(1) show ?thesis by (simp add: flag_inv_same playlist_frame)
next
  case (Clear_playlist n)
  with assms(2) have "s' = clear_playlist n s" by simp
  with assms(1) show ?thesis by (simp add: flag_inv_same playlist_frame)
next
  case (Delete_playlist n)
  with assms(2) have "s' = delete_playlist n s" by simp
  with assms(1) show ?thesis by (simp add: flag_inv_same playlist_frame)
qed

lemma flag_video_stores:
  assumes "get_video_lib (video_library s) vid = Some v"
      and "\<not> truthy (flag s v)"
      and "flag_video vid r s = Inr s'"
  shows "flag s' v = Some (if r = [] then ''Not supplied'' else r)"
  using assms
  by (cases "playback s")
     (auto simp add: flag_video_def getitem_def flag_def Let_def split: if_splits)

lemma flag_inv_truthy:
  "flag_inv s \<Longrightarrow> v \<in> set (video_library s) \<Longrightarrow> truthy (flag s v) \<longleftrightarrow> flag s v \<noteq> None"
  by (auto simp add: flag_inv_def list_all_iff truthy_def split: option.splits)

text \<open>
  C9. Every operation keeps the invariant that the flag field of each video of the
  library is \<open>None\<close> or a non-empty string; hence in the state after any operation a flag
  is present exactly when the field is true in Python's sense, which is what every
  \<^verbatim>\<open>if video.flag\<close> tests. \<open>flag_video\<close> with the empty reason stores "Not supplied".
  A new player satisfies the invariant (\<open>flag_inv_init\<close>).
\<close>

theorem flag_inv_kept:
  assumes "flag_inv s" and "call m s = Inr s'"
  shows "flag_inv s'
       \<and> (\<forall>v\<in>set (video_library s'). truthy (flag s' v) \<longleftrightarrow> flag s' v \<noteq> None)
       \<and> (\<forall>vid v. m = Flag_video vid [] \<and> get_video_lib (video_library s) vid = Some v
              \<and> \<not> truthy (flag s v) \<longrightarrow> flag s' v = Some ''Not supplied'')"
proof -
  have inv: "flag_inv s'"
    using assms by (rule call_keeps_flag_inv)
  have coerce: "flag s' v = Some ''Not supplied''"
    if "m = Flag_video vid []" "get_video_lib (video_library s) vid = Some v"
       "\<not> truthy (flag s v)" for vid v
  proof -
    from that(1) assms(2) have "flag_video vid [] s = Inr s'" by simp
    from flag_video_stores [OF that(2,3) this] show ?thesis by simp
  qed
  from inv coerce show ?thesis
    by (simp add: flag_inv_truthy)
qed

theorem flag_inv_kept_witness:
  "flag_inv new_player
   \<and> call (Flag_video ''amazing_cats_video_id'' []) new_player =
       Inr (new_player\<lparr>flags := [''amazing_cats_video_id'' \<mapsto> ''Not supplied''],
              console := [FlaggedVideo ''Amazing Cats'' ''Not supplied'']\<rparr>)
   \<and> flag_inv (new_player\<lparr>flags := [''amazing_cats_video_id'' \<mapsto> ''Not supplied''],
              console := [FlaggedVideo ''Amazing Cats'' ''Not supplied'']\<rparr>)
   \<and> truthy (flag (new_player\<lparr>flags := [''amazing_cats_video_id'' \<mapsto> ''Not supplied''],
              console := [FlaggedVideo ''Amazing Cats'' ''Not supplied'']\<rparr>) amazing_cats)
   \<and> flag (new_player\<lparr>flags := [''amazing_cats_video_id'' \<mapsto> ''Not supplied''],
              console := [FlaggedVideo ''Amazing Cats'' ''Not supplied'']\<rparr>) funny_dogs = None"
proof -
  let ?s' = "new_player\<lparr>flags := [''amazing_cats_video_id'' \<mapsto> ''Not supplied''],
              console := [FlaggedVideo ''Amazing Cats'' ''Not supplied'']\<rparr>"
  have h1: "flag_inv new_player"
    unfolding new_player_def by (rule flag_inv_init)
  have h2: "call (Flag_video ''amazing_cats_video_id'' []) new_player = Inr ?s'"
    by (simp add: example_defs flag_video_def getitem_def get_video_lib_def flag_def
        truthy_def print_def Let_def)
  have m: "amazing_cats \<in> set (video_library ?s')" "funny_dogs \<in> set (video_library ?s')"
    by (simp_all add: example_defs)
  have d: "flag ?s' funny_dogs = None" "flag ?s' amazing_cats \<noteq> None"
    by (simp_all add: example_defs flag_def)
  show ?thesis
    using flag_inv_kept [OF h1 h2] h1 h2 m d by simp
qed

section \<open>Flagging a video that is not the current one\<close>

text \<open>
  C10. When the video to flag exists, is not flagged and is not the current video of the
  playback, \<open>flag_video\<close> sets the flag and prints its line, and the playback (state and
  current video) is as before the call.
\<close>

theorem flag_video_frame:
  assumes "get_video_lib (video_library s) vid = Some v"
      and "\<not> truthy (flag s v)"
      and "current (playback s) \<noteq> Some v"
  shows "flag_video vid r s =
           Inr (s\<lparr>flags := (flags s)(video_id v \<mapsto> (if r = [] then ''Not supplied'' else r)),
                  console := console s @
                    [FlaggedVideo (title v) (if r = [] then ''Not supplied'' else r)]\<rparr>)"
  using assms
  by (cases "playback s")
     (simp_all add: flag_video_def getitem_def print_def Let_def)

theorem flag_video_frame_witness:
  "get_video_lib (video_library playing_cats) ''funny_dogs_video_id'' = Some funny_dogs
   \<and> \<not> truthy (flag playing_cats funny_dogs)
   \<and> current (playback playing_cats) \<noteq> Some funny_dogs
   \<and> flag_video ''funny_dogs_video_id'' [] playing_cats =
       Inr (playing_cats\<lparr>flags := [''funny_dogs_video_id'' \<mapsto> ''Not supplied''],
              console := [PlayingVideo ''Amazing Cats'',
                          FlaggedVideo ''Funny Dogs'' ''Not supplied'']\<rparr>)"
proof -
  have h1: "get_video_lib (video_library playing_cats) ''funny_dogs_video_id'' = Some funny_dogs"
    by (simp add: player_defs get_video_lib_def)
  have h2: "\<not> truthy (flag playing_cats funny_dogs)"
    by (simp add: player_defs flag_def truthy_def)
  have h3: "current (playback playing_cats) \<noteq> Some funny_dogs"
    by (simp add: player_defs)
  have c: "flags playing_cats = Map.empty" "title funny_dogs = ''Funny Dogs''"
      "video_id funny_dogs = ''funny_dogs_video_id''"
      "console playing_cats = [PlayingVideo ''Amazing Cats'']"
    by (simp_all add: player_defs)
  show ?thesis
    using flag_video_frame [OF h1 h2 h3, of "[]"] h1 h2 h3 by (simp add: c)
qed

end
